theory Spec2Isabelle
  imports Main "HOL-Library.Word"
begin

unbundle bit_operations_syntax

section \<open>Values of the runtime\<close>

text \<open>
  A Node \<open>Buffer\<close> is a list of bytes. A JavaScript string is modelled by the list of its
  UTF-8 bytes (\<open>string\<close>), so that \<open>Buffer.from(s, 'utf8')\<close> and \<open>buf.toString('utf8')\<close>
  only change the element type; the strings of the model are therefore the well-formed
  ones (a string with an unpaired surrogate has no UTF-8 form). Mongoose \<open>Number\<close> fields
  and \<open>parseInt\<close> results are \<open>int\<close>, dates are milliseconds (\<open>nat\<close>).
\<close>

type_synonym buffer = "8 word list"

text \<open>
  Everything the code throws. \<open>Lib_failure\<close> stands for an error raised inside a package
  that is not part of the repository (\<open>crypto\<close>, \<open>shamir-secret-sharing\<close>, the database
  driver); the other constructors are the \<open>new Error(...)\<close> of the sources, named by
  their message.
\<close>

datatype js_error =
    Lib_failure string
  | ENCRYPTION_KEY_is_not_defined
  | Failed_to_encrypt_data
  | Failed_to_decrypt_data
  | Failed_to_split_secret
  | Failed_to_reconstruct_secret
  | Need_at_least_shares int
  | Share_not_found

definition Buffer_from_utf8 :: "string \<Rightarrow> buffer" where
  "Buffer_from_utf8 s = map (\<lambda>c. of_nat (of_char c)) s"

definition toString_utf8 :: "buffer \<Rightarrow> string" where
  "toString_utf8 b = map (\<lambda>w. char_of (unat w)) b"

text \<open>\<open>buf.toString('hex')\<close>: two lower-case digits for every byte.\<close>

definition hex_digit :: "nat \<Rightarrow> char" where
  "hex_digit n = ''0123456789abcdef'' ! n"

definition toString_hex :: "buffer \<Rightarrow> string" where
  "toString_hex b = concat (map (\<lambda>w. [hex_digit (unat w div 16), hex_digit (unat w mod 16)]) b)"

text \<open>
  \<open>Buffer.from(s, 'hex')\<close>: pairs of hexadecimal digits of either case; decoding stops
  at the first pair that is not hexadecimal, and a trailing single digit is dropped.
\<close>

definition hex_value :: "char \<Rightarrow> nat option" where
  "hex_value c =
     (let n = (of_char c :: nat) in
      if 48 \<le> n \<and> n \<le> 57 then Some (n - 48)
      else if 97 \<le> n \<and> n \<le> 102 then Some (n - 87)
      else if 65 \<le> n \<and> n \<le> 70 then Some (n - 55)
      else None)"

fun Buffer_from_hex :: "string \<Rightarrow> buffer" where
  "Buffer_from_hex (a # b # rest) =
     (case (hex_value a, hex_value b) of
        (Some h, Some l) \<Rightarrow> of_nat (16 * h + l) # Buffer_from_hex rest
      | _ \<Rightarrow> [])"
| "Buffer_from_hex _ = []"

section \<open>Exam paper: share availability (ExamPaper model)\<close>

text \<open>
  The \<open>shamirShares\<close> sub-documents of an exam paper and the fields of the paper that the
  share methods read.
\<close>

record shamirShare =
  shareId :: int
  share :: string
  holder :: string
  distributedAt :: nat
  isUsed :: bool

record examPaper =
  shamirShares :: "shamirShare list"
  threshold :: int
  totalShares :: int

text \<open>\<open>addShamirShare\<close>: pushes a new share; \<open>isUsed\<close> takes the schema default \<open>false\<close>.\<close>

definition addShamirShare :: "nat \<Rightarrow> int \<Rightarrow> string \<Rightarrow> string \<Rightarrow> examPaper \<Rightarrow> examPaper" where
  "addShamirShare now sid sh hld p =
     p\<lparr>shamirShares := shamirShares p @
        [\<lparr>shareId = sid, share = sh, holder = hld, distributedAt = now, isUsed = False\<rparr>]\<rparr>"

text \<open>
  \<open>markShareAsUsed\<close>: \<open>Array.prototype.find\<close> takes the first share with the given id and
  sets its flag; without such a share the method throws.
\<close>

fun mark_first :: "int \<Rightarrow> shamirShare list \<Rightarrow> shamirShare list option" where
  "mark_first sid [] = None"
| "mark_first sid (s # ss) =
     (if shareId s = sid then Some (s\<lparr>isUsed := True\<rparr> # ss)
      else map_option ((#) s) (mark_first sid ss))"

definition markShareAsUsed :: "int \<Rightarrow> examPaper \<Rightarrow> js_error + examPaper" where
  "markShareAsUsed sid p =
     (case mark_first sid (shamirShares p) of
        Some ss \<Rightarrow> Inr (p\<lparr>shamirShares := ss\<rparr>)
      | None \<Rightarrow> Inl Share_not_found)"

definition getAvailableShares :: "examPaper \<Rightarrow> shamirShare list" where
  "getAvailableShares p = filter (\<lambda>s. \<not> isUsed s) (shamirShares p)"

definition hasEnoughShares :: "examPaper \<Rightarrow> bool" where
  "hasEnoughShares p = (let availableShares = getAvailableShares p
                        in int (length availableShares) \<ge> threshold p)"

section \<open>Blockchain transactions (BlockchainTransaction model, BlockchainService)\<close>

datatype tx_status = pending | confirmed | failed | reverted

datatype entity_type = Question | ExamPaper | Answer | Result | ExamSession

datatype tx_type = question_hash | paper_hash | answer_hash | result_hash | rank_hash

record blockchainTransaction =
  transactionId :: string
  solanaTxId :: string
  txType :: tx_type
  entityType :: entity_type
  entityId :: string
  dataHash :: string
  status :: tx_status
  errorMessage :: "string option"
  retryCount :: int
  maxRetries :: int
  submittedAt :: nat
  confirmedAt :: "nat option"
  failedAt :: "nat option"

text \<open>
  The instance methods change the document in memory and then call \<open>save()\<close>; the model
  returns the document the method leaves. \<open>new Date()\<close> is the argument \<open>now\<close>.
\<close>

definition markFailed :: "nat \<Rightarrow> string \<Rightarrow> blockchainTransaction \<Rightarrow> blockchainTransaction" where
  "markFailed now msg t = t\<lparr>status := failed, errorMessage := Some msg, failedAt := Some now\<rparr>"

definition incrementRetry :: "nat \<Rightarrow> blockchainTransaction \<Rightarrow> blockchainTransaction" where
  "incrementRetry now t =
     (let t1 = t\<lparr>retryCount := retryCount t + 1\<rparr> in
      if retryCount t1 \<ge> maxRetries t1
      then t1\<lparr>status := failed, errorMessage := Some ''Max retries exceeded'', failedAt := Some now\<rparr>
      else t1)"

definition resetForRetry :: "blockchainTransaction \<Rightarrow> blockchainTransaction" where
  "resetForRetry t = t\<lparr>status := pending, errorMessage := None, failedAt := None\<rparr>"

text \<open>\<open>findPending\<close>: the documents a retry worker would pick up, oldest first.\<close>

definition findPending :: "blockchainTransaction list \<Rightarrow> blockchainTransaction list" where
  "findPending docs = sort_key submittedAt (filter (\<lambda>t. status t = pending) docs)"

text \<open>
  Consecutive transient failures: one \<open>incrementRetry\<close> per failure, at the time of the
  failure.
\<close>

fun retry_steps :: "nat list \<Rightarrow> blockchainTransaction \<Rightarrow> blockchainTransaction" where
  "retry_steps [] t = t"
| "retry_steps (now # nows) t = retry_steps nows (incrementRetry now t)"

text \<open>
  The collection, as \<open>findOne\<close> scans it: a query without a sort returns the first document
  in the collection's natural order that matches the filter. A query on a database that
  cannot be reached rejects.
\<close>

datatype db = Connected "blockchainTransaction list" | Unreachable

definition findOne :: "db \<Rightarrow> (blockchainTransaction \<Rightarrow> bool) \<Rightarrow> js_error + blockchainTransaction option" where
  "findOne d flt = (case d of
       Connected docs \<Rightarrow> Inr (find flt docs)
     | Unreachable \<Rightarrow> Inl (Lib_failure ''MongoNetworkError''))"

definition verifyDataIntegrity :: "db \<Rightarrow> string \<Rightarrow> entity_type \<Rightarrow> string \<Rightarrow> bool" where
  "verifyDataIntegrity d eid ety localHash =
     (case findOne d (\<lambda>t. entityId t = eid \<and> entityType t = ety \<and> status t = confirmed) of
        Inl e \<Rightarrow> False
      | Inr None \<Rightarrow> False
      | Inr (Some t) \<Rightarrow> dataHash t = localHash)"

text \<open>
  The record the specification takes as authoritative: in the append-only log, the
  confirmed record of the entity that was appended last.
\<close>

definition latest_confirmed :: "blockchainTransaction list \<Rightarrow> string \<Rightarrow> entity_type \<Rightarrow> blockchainTransaction option" where
  "latest_confirmed docs eid ety =
     find (\<lambda>t. entityId t = eid \<and> entityType t = ety \<and> status t = confirmed) (rev docs)"

section \<open>Questions (Question model)\<close>

text \<open>
  Objects live in a heap, addressed by their position; a plain object is a finite map from
  property names to values. \<open>toObject()\<close> allocates a new plain object holding the
  document's data as Mongoose converts it (\<open>conv\<close>: the stored fields and the schema's
  virtuals); \<open>delete o.k\<close> removes a property of the object at an address.
\<close>

type_synonym 'v plain_object = "string \<rightharpoonup> 'v"

definition toObject :: "('v plain_object \<Rightarrow> 'v plain_object) \<Rightarrow> 'v plain_object list \<Rightarrow> nat
    \<Rightarrow> 'v plain_object list \<times> nat" where
  "toObject conv h this = (h @ [conv (h ! this)], length h)"

definition delete_property :: "'v plain_object list \<Rightarrow> nat \<Rightarrow> string \<Rightarrow> 'v plain_object list" where
  "delete_property h r k = h[r := (h ! r)(k := None)]"

definition getForExam :: "('v plain_object \<Rightarrow> 'v plain_object) \<Rightarrow> 'v plain_object list \<Rightarrow> nat
    \<Rightarrow> 'v plain_object list \<times> nat" where
  "getForExam conv h this =
     (let (h0, questionData) = toObject conv h this;
          h1 = delete_property h0 questionData ''correctAnswer'';
          h2 = delete_property h1 questionData ''explanation'';
          h3 = delete_property h2 questionData ''blockchainHash'';
          h4 = delete_property h3 questionData ''blockchainTxId'';
          h5 = delete_property h4 questionData ''verifiedBy'';
          h6 = delete_property h5 questionData ''verifiedAt''
      in (h6, questionData))"

section \<open>Encryption service (utils/encryption)\<close>

text \<open>
  A \<open>throw\<close> leaves the rest of a \<open>try\<close> block undone (\<open>bind_err\<close>); every method of the
  service catches whatever its block throws, logs it and throws one fixed error
  (\<open>catch_as\<close>).
\<close>

definition bind_err :: "js_error + 'a \<Rightarrow> ('a \<Rightarrow> js_error + 'b) \<Rightarrow> js_error + 'b" where
  "bind_err m f = (case m of Inl e \<Rightarrow> Inl e | Inr x \<Rightarrow> f x)"

definition catch_as :: "js_error \<Rightarrow> js_error + 'a \<Rightarrow> js_error + 'a" where
  "catch_as e m = (case m of Inl _ \<Rightarrow> Inl e | Inr x \<Rightarrow> Inr x)"

text \<open>
  The service object: \<open>this.encryptionKey\<close>, \<open>this.threshold\<close>, \<open>this.totalParts\<close>. The
  constructor reads them from the environment; \<open>thr\<close> and \<open>tot\<close> are the results of
  \<open>parseInt\<close> (\<open>None\<close> for \<open>NaN\<close>), and \<open>x || 3\<close> replaces \<open>NaN\<close> and \<open>0\<close>.
\<close>

record encryptionService =
  encryptionKey :: string
  service_threshold :: int
  service_totalParts :: int

definition or_default :: "int option \<Rightarrow> int \<Rightarrow> int" where
  "or_default x d = (case x of None \<Rightarrow> d | Some n \<Rightarrow> if n = 0 then d else n)"

definition new_EncryptionService :: "string option \<Rightarrow> int option \<Rightarrow> int option
    \<Rightarrow> js_error + encryptionService" where
  "new_EncryptionService env_key thr tot =
     (case env_key of
        None \<Rightarrow> Inl ENCRYPTION_KEY_is_not_defined
      | Some k \<Rightarrow>
          if k = [] then Inl ENCRYPTION_KEY_is_not_defined
          else Inr \<lparr>encryptionKey = k, service_threshold = or_default thr 3,
                    service_totalParts = or_default tot 5\<rparr>)"

subsection \<open>The cipher\<close>

text \<open>
  The calls the service makes on Node's \<open>crypto\<close> module, as operations on a cipher object
  of type \<open>'c\<close>. The module is not part of the repository, so its operations are a
  parameter of the model.
\<close>

record 'c node_crypto =
  createCipher :: "string \<Rightarrow> buffer \<Rightarrow> js_error + 'c"
  cipher_update :: "'c \<Rightarrow> buffer \<Rightarrow> js_error + 'c \<times> buffer"
  cipher_final :: "'c \<Rightarrow> js_error + 'c \<times> buffer"
  getAuthTag :: "'c \<Rightarrow> js_error + buffer"
  createDecipher :: "string \<Rightarrow> buffer \<Rightarrow> js_error + 'c"
  setAuthTag :: "'c \<Rightarrow> buffer \<Rightarrow> js_error + 'c"
  decipher_update :: "'c \<Rightarrow> buffer \<Rightarrow> js_error + 'c \<times> buffer"
  decipher_final :: "'c \<Rightarrow> js_error + 'c \<times> buffer"

record encryptedData =
  encrypted :: string
  iv :: string
  authTag :: string

text \<open>
  \<open>encrypt\<close>. The argument \<open>randomBytes16\<close> is the value of \<open>crypto.randomBytes(16)\<close> in
  this call. The cipher is created from the algorithm name and the key alone.
\<close>

definition encrypt_try :: "'c node_crypto \<Rightarrow> encryptionService \<Rightarrow> buffer \<Rightarrow> string
    \<Rightarrow> js_error + encryptedData" where
  "encrypt_try C this randomBytes16 data =
     (let key = Buffer_from_hex (encryptionKey this);
          iv_bytes = randomBytes16 in
      bind_err (createCipher C ''aes-256-gcm'' key) (\<lambda>cipher.
      bind_err (cipher_update C cipher (Buffer_from_utf8 data)) (\<lambda>(cipher, out1).
      bind_err (cipher_final C cipher) (\<lambda>(cipher, out2).
      bind_err (getAuthTag C cipher) (\<lambda>tag.
      Inr \<lparr>encrypted = toString_hex out1 @ toString_hex out2,
           iv = toString_hex iv_bytes,
           authTag = toString_hex tag\<rparr>)))))"

definition encrypt :: "'c node_crypto \<Rightarrow> encryptionService \<Rightarrow> buffer \<Rightarrow> string
    \<Rightarrow> js_error + encryptedData" where
  "encrypt C this randomBytes16 data =
     catch_as Failed_to_encrypt_data (encrypt_try C this randomBytes16 data)"

text \<open>
  \<open>decrypt\<close>. The \<open>iv\<close> of the payload is decoded into a local constant that no later
  statement reads.
\<close>

definition decrypt_try :: "'c node_crypto \<Rightarrow> encryptionService \<Rightarrow> encryptedData
    \<Rightarrow> js_error + string" where
  "decrypt_try C this encryptedData =
     (let key = Buffer_from_hex (encryptionKey this);
          iv_bytes = Buffer_from_hex (iv encryptedData);
          tag = Buffer_from_hex (authTag encryptedData) in
      bind_err (createDecipher C ''aes-256-gcm'' key) (\<lambda>decipher.
      bind_err (setAuthTag C decipher tag) (\<lambda>decipher.
      bind_err (decipher_update C decipher (Buffer_from_hex (encrypted encryptedData))) (\<lambda>(decipher, out1).
      bind_err (decipher_final C decipher) (\<lambda>(decipher, out2).
      Inr (toString_utf8 out1 @ toString_utf8 out2))))))"

definition decrypt :: "'c node_crypto \<Rightarrow> encryptionService \<Rightarrow> encryptedData
    \<Rightarrow> js_error + string" where
  "decrypt C this encryptedData =
     catch_as Failed_to_decrypt_data (decrypt_try C this encryptedData)"

subsection \<open>Secret sharing\<close>

text \<open>
  The two functions the service calls in the package \<open>shamir-secret-sharing\<close>:
  \<open>shamir.share(secret, totalParts, threshold)\<close>, which draws random coefficients (\<open>'r\<close>),
  and \<open>shamir.combine(shares)\<close>. The package is not part of the repository, so both are a
  parameter of the model.
\<close>

record 'r shamir_lib =
  shamir_share :: "'r \<Rightarrow> buffer \<Rightarrow> int \<Rightarrow> int \<Rightarrow> js_error + buffer list"
  shamir_combine :: "buffer list \<Rightarrow> js_error + buffer"

text \<open>The objects \<open>splitSecret\<close> returns: \<open>{id, share, threshold, totalParts}\<close>.\<close>

record splitShare =
  split_id :: int
  split_share :: string
  split_threshold :: int
  split_totalParts :: int

definition splitSecret_try :: "'r shamir_lib \<Rightarrow> encryptionService \<Rightarrow> 'r \<Rightarrow> string
    \<Rightarrow> js_error + splitShare list" where
  "splitSecret_try L this rnd secret =
     (let secretBuffer = Buffer_from_utf8 secret in
      bind_err (shamir_share L rnd secretBuffer (service_totalParts this) (service_threshold this))
        (\<lambda>shares.
      Inr (map (\<lambda>(index, sh).
             \<lparr>split_id = int index + 1,
              split_share = toString_hex sh,
              split_threshold = service_threshold this,
              split_totalParts = service_totalParts this\<rparr>)
           (enumerate 0 shares))))"

definition splitSecret :: "'r shamir_lib \<Rightarrow> encryptionService \<Rightarrow> 'r \<Rightarrow> string
    \<Rightarrow> js_error + splitShare list" where
  "splitSecret L this rnd secret =
     catch_as Failed_to_split_secret (splitSecret_try L this rnd secret)"

definition reconstructSecret_try :: "'r shamir_lib \<Rightarrow> encryptionService \<Rightarrow> splitShare list
    \<Rightarrow> js_error + string" where
  "reconstructSecret_try L this shares =
     (if int (length shares) < service_threshold this
      then Inl (Need_at_least_shares (service_threshold this))
      else
        let shareBuffers = map (\<lambda>s. Buffer_from_hex (split_share s)) shares in
        bind_err (shamir_combine L shareBuffers) (\<lambda>reconstructed.
        Inr (toString_utf8 reconstructed)))"

definition reconstructSecret :: "'r shamir_lib \<Rightarrow> encryptionService \<Rightarrow> splitShare list
    \<Rightarrow> js_error + string" where
  "reconstructSecret L this shares =
     catch_as Failed_to_reconstruct_secret (reconstructSecret_try L this shares)"

section \<open>Contracts of the packages outside the repository\<close>

text \<open>
  Modelled from the spec: the authenticated cipher of Node's \<open>crypto\<close> module, which the
  sources call and do not contain. The specification takes it as an AEAD that decrypts,
  under the same key, what it encrypted: for a key of the cipher's size (32 bytes for
  AES-256) the calls \<open>createCipher\<close>, \<open>update\<close>, \<open>final\<close>, \<open>getAuthTag\<close> succeed, and
  \<open>createDecipher\<close>, \<open>setAuthTag\<close>, \<open>update\<close>, \<open>final\<close> on their output give the plaintext
  back.
\<close>

definition cipher_roundtrip :: "'c node_crypto \<Rightarrow> bool" where
  "cipher_roundtrip C =
     (\<forall>key plaintext. length key = 32 \<longrightarrow>
        (\<exists>c0 c1 out1 c2 out2 tag d0 d1 d2 p1 d3 p2.
           createCipher C ''aes-256-gcm'' key = Inr c0
         \<and> cipher_update C c0 plaintext = Inr (c1, out1)
         \<and> cipher_final C c1 = Inr (c2, out2)
         \<and> getAuthTag C c2 = Inr tag
         \<and> createDecipher C ''aes-256-gcm'' key = Inr d0
         \<and> setAuthTag C d0 tag = Inr d1
         \<and> decipher_update C d1 (out1 @ out2) = Inr (d2, p1)
         \<and> decipher_final C d2 = Inr (d3, p2)
         \<and> p1 @ p2 = plaintext))"


text \<open>
  Modelled from the spec: the validation of \<open>shamir.share\<close> in the package
  \<open>shamir-secret-sharing\<close>, which the sources call and do not contain. The specification
  has the split fail if \<open>T < 2\<close>, \<open>T > N\<close> or the secret is empty.
\<close>

definition rejects_invalid_policy :: "'r shamir_lib \<Rightarrow> bool" where
  "rejects_invalid_policy L =
     (\<forall>rnd secret n t. t < 2 \<or> t > n \<or> secret = []
        \<longrightarrow> (\<exists>e. shamir_share L rnd secret n t = Inl e))"

section \<open>Small instances of the two packages, and example data\<close>

text \<open>
  A cipher with the interface of \<open>node_crypto\<close>: every byte is XORed with a byte derived
  from the key, and the tag is a checksum of key and ciphertext. The cipher object holds
  the key, the ciphertext seen so far and the tag that was set.
\<close>

type_synonym xor_cipher_state = "buffer \<times> buffer \<times> buffer"

definition xor_pad :: "buffer \<Rightarrow> 8 word" where
  "xor_pad key = fold (XOR) key 0"

definition sum_tag :: "buffer \<Rightarrow> buffer \<Rightarrow> buffer" where
  "sum_tag key ct = [fold (+) (key @ ct) 0]"

definition xor_cipher :: "xor_cipher_state node_crypto" where
  "xor_cipher =
     \<lparr>createCipher = (\<lambda>alg key.
          if alg = ''aes-256-gcm'' \<and> length key = 32 then Inr (key, [], [])
          else Inl (Lib_failure ''Invalid key length'')),
      cipher_update = (\<lambda>(key, seen, tag) pt.
          Inr ((key, seen @ map (\<lambda>b. b XOR xor_pad key) pt, tag), map (\<lambda>b. b XOR xor_pad key) pt)),
      cipher_final = (\<lambda>c. Inr (c, [])),
      getAuthTag = (\<lambda>(key, seen, tag). Inr (sum_tag key seen)),
      createDecipher = (\<lambda>alg key.
          if alg = ''aes-256-gcm'' \<and> length key = 32 then Inr (key, [], [])
          else Inl (Lib_failure ''Invalid key length'')),
      setAuthTag = (\<lambda>(key, seen, _) tag. Inr (key, seen, tag)),
      decipher_update = (\<lambda>(key, seen, tag) ct.
          Inr ((key, seen @ ct, tag), map (\<lambda>b. b XOR xor_pad key) ct)),
      decipher_final = (\<lambda>(key, seen, tag).
          if tag = sum_tag key seen then Inr ((key, seen, tag), [])
          else Inl (Lib_failure ''Unsupported state or unable to authenticate data''))\<rparr>"

text \<open>
  Two-out-of-two sharing: the first share is a random pad, the second the secret XORed
  with the pad; each share ends with its number. Every other policy is refused.
\<close>

definition xor_sharing :: "(nat \<Rightarrow> 8 word) shamir_lib" where
  "xor_sharing =
     \<lparr>shamir_share = (\<lambda>rnd secret n t.
          if n = 2 \<and> t = 2 \<and> secret \<noteq> []
          then Inr [map rnd [0..<length secret] @ [1],
                    map2 (XOR) secret (map rnd [0..<length secret]) @ [2]]
          else Inl (Lib_failure ''unsupported policy'')),
      shamir_combine = (\<lambda>shares.
          case shares of
            [a, b] \<Rightarrow> Inr (map2 (XOR) (butlast a) (butlast b))
          | _ \<Rightarrow> Inl (Lib_failure ''two shares expected''))\<rparr>"

definition example_rnd :: "nat \<Rightarrow> 8 word" where
  "example_rnd i = of_nat (7 * i + 3)"


definition service_3_of_5 :: encryptionService where
  "service_3_of_5 =
     \<lparr>encryptionKey = ''000102030405060708090a0b0c0d0e0f101112131415161718191a1b1c1d1e1f'',
      service_threshold = 3, service_totalParts = 5\<rparr>"

definition service_1_of_5 :: encryptionService where
  "service_1_of_5 =
     \<lparr>encryptionKey = ''000102030405060708090a0b0c0d0e0f101112131415161718191a1b1c1d1e1f'',
      service_threshold = 1, service_totalParts = 5\<rparr>"

definition share_2 :: splitShare where
  "share_2 = \<lparr>split_id = 2, split_share = ''0a0b02'', split_threshold = 3, split_totalParts = 5\<rparr>"

definition share_4 :: splitShare where
  "share_4 = \<lparr>split_id = 4, split_share = ''0c0d04'', split_threshold = 3, split_totalParts = 5\<rparr>"

definition tx0 :: blockchainTransaction where
  "tx0 = \<lparr>transactionId = ''TX0'', solanaTxId = ''solana_tx_0'', txType = question_hash,
      entityType = Question, entityId = ''Q1'', dataHash = ''hashA'', status = pending,
      errorMessage = None, retryCount = 0, maxRetries = 3, submittedAt = 0,
      confirmedAt = None, failedAt = None\<rparr>"

text \<open>
  What \<open>storePaperHash\<close> and then \<open>storeRankHash\<close> leave in the collection for paper \<open>P1\<close>:
  both records have entity type \<open>ExamPaper\<close> and the paper's id.
\<close>

definition paper_anchor :: blockchainTransaction where
  "paper_anchor = \<lparr>transactionId = ''TX1'', solanaTxId = ''solana_tx_1'', txType = paper_hash,
      entityType = ExamPaper, entityId = ''P1'', dataHash = ''hashA'', status = confirmed,
      errorMessage = None, retryCount = 0, maxRetries = 3, submittedAt = 100,
      confirmedAt = Some 100, failedAt = None\<rparr>"

definition rank_anchor :: blockchainTransaction where
  "rank_anchor = \<lparr>transactionId = ''TX2'', solanaTxId = ''solana_tx_2'', txType = rank_hash,
      entityType = ExamPaper, entityId = ''P1'', dataHash = ''hashB'', status = confirmed,
      errorMessage = None, retryCount = 0, maxRetries = 3, submittedAt = 200,
      confirmedAt = Some 200, failedAt = None\<rparr>"

definition example_question :: "string plain_object" where
  "example_question =
     [''questionText'' \<mapsto> ''2 + 2 = ?'', ''correctAnswer'' \<mapsto> ''B'',
      ''explanation'' \<mapsto> ''addition'', ''marks'' \<mapsto> ''1'']"

definition example_conv :: "string plain_object \<Rightarrow> string plain_object" where
  "example_conv d = d(''fullQuestionId'' \<mapsto> ''MH_Q1'')"

section \<open>Auxiliary facts\<close>

subsection \<open>Encodings\<close>

lemma hex_value_digit: "n < 16 \<Longrightarrow> hex_value (hex_digit n) = Some n"
proof -
  assume "n < 16"
  then have "n \<in> {0,1,2,3,4,5,6,7,8,9,10,11,12,13,14,15}" by (simp; arith)
  then show ?thesis
    by (auto simp: hex_value_def hex_digit_def)
qed

lemma byte_nibbles: "unat (w :: 8 word) div 16 < 16" "unat w mod 16 < 16"
  using unsigned_less [of w, where ?'a = nat] by simp_all

lemma Buffer_from_hex_toString_hex: "Buffer_from_hex (toString_hex b) = b"
  by (induction b) (simp_all add: toString_hex_def hex_value_digit byte_nibbles)

lemma toString_hex_append: "toString_hex (a @ b) = toString_hex a @ toString_hex b"
  by (simp add: toString_hex_def)

lemma toString_utf8_Buffer_from_utf8: "toString_utf8 (Buffer_from_utf8 s) = s"
  unfolding toString_utf8_def Buffer_from_utf8_def
  by (induction s) (simp_all add: unat_of_nat take_bit_nat_eq_self)

lemma toString_utf8_append: "toString_utf8 (a @ b) = toString_utf8 a @ toString_utf8 b"
  by (simp add: toString_utf8_def)

lemma bind_err_simps:
  "bind_err (Inl e) f = Inl e"
  "bind_err (Inr x) f = f x"
  by (simp_all add: bind_err_def)

lemma catch_as_simps:
  "catch_as e (Inl e') = Inl e"
  "catch_as e (Inr x) = Inr x"
  by (simp_all add: catch_as_def)

subsection \<open>Retry counter\<close>

lemma incrementRetry_fields:
  "retryCount (incrementRetry now t) = retryCount t + 1"
  "maxRetries (incrementRetry now t) = maxRetries t"
  by (simp_all add: incrementRetry_def Let_def)

lemma incrementRetry_below:
  "retryCount t + 1 < maxRetries t \<Longrightarrow> status (incrementRetry now t) = status t"
  by (simp add: incrementRetry_def Let_def)

lemma incrementRetry_reached:
  "maxRetries t \<le> retryCount t + 1 \<Longrightarrow> status (incrementRetry now t) = failed"
  "maxRetries t \<le> retryCount t + 1 \<Longrightarrow> failedAt (incrementRetry now t) = Some now"
  by (simp_all add: incrementRetry_def Let_def)

lemma incrementRetry_failed:
  "status t = failed \<Longrightarrow> status (incrementRetry now t) = failed"
  by (simp add: incrementRetry_def Let_def)

lemma retry_steps_append:
  "retry_steps (xs @ ys) t = retry_steps ys (retry_steps xs t)"
  by (induction xs arbitrary: t) simp_all

lemma retry_steps_fields:
  "retryCount (retry_steps nows t) = retryCount t + int (length nows)"
  "maxRetries (retry_steps nows t) = maxRetries t"
  by (induction nows arbitrary: t) (simp_all add: incrementRetry_fields)

lemma retry_steps_failed:
  "status t = failed \<Longrightarrow> status (retry_steps nows t) = failed"
  by (induction nows arbitrary: t) (simp_all add: incrementRetry_failed)

lemma retry_steps_pending:
  "status t = pending \<Longrightarrow> retryCount t + int (length nows) < maxRetries t
     \<Longrightarrow> status (retry_steps nows t) = pending"
proof (induction nows arbitrary: t)
  case Nil
  then show ?case by simp
next
  case (Cons now nows)
  have "status (incrementRetry now t) = pending"
    using Cons.prems by (simp add: incrementRetry_below)
  moreover have "retryCount (incrementRetry now t) + int (length nows)
      < maxRetries (incrementRetry now t)"
    using Cons.prems by (simp add: incrementRetry_fields)
  ultimately show ?case
    using Cons.IH by simp
qed

lemma findPending_status: "t \<in> set (findPending docs) \<Longrightarrow> status t = pending"
  by (simp add: findPending_def)

lemma resetForRetry_then_failure:
  "maxRetries t \<le> retryCount t
     \<Longrightarrow> status (resetForRetry t) = pending
         \<and> retryCount (resetForRetry t) = retryCount t
         \<and> status (incrementRetry now (resetForRetry t)) = failed"
  by (simp add: resetForRetry_def incrementRetry_def Let_def)

subsection \<open>Lookup\<close>

lemma find_first_index:
  "find P xs = Some x \<longleftrightarrow>
     (\<exists>i < length xs. P (xs ! i) \<and> (\<forall>j < i. \<not> P (xs ! j)) \<and> x = xs ! i)"
  by (auto simp: find_Some_iff)

lemma find_None_index: "find P xs = None \<longleftrightarrow> (\<forall>i < length xs. \<not> P (xs ! i))"
  by (auto simp: find_None_iff in_set_conv_nth)

subsection \<open>Objects\<close>

lemma delete_property_fresh:
  "r = length h \<Longrightarrow> delete_property (h @ [ob]) r k = h @ [ob(k := None)]"
  by (simp add: delete_property_def)

lemma getForExam_eq:
  "getForExam conv h this =
     (h @ [(conv (h ! this))(''correctAnswer'' := None, ''explanation'' := None,
            ''blockchainHash'' := None, ''blockchainTxId'' := None,
            ''verifiedBy'' := None, ''verifiedAt'' := None)], length h)"
  by (simp add: getForExam_def toObject_def delete_property_fresh)

subsection \<open>Shares of a paper\<close>

lemma mark_first_available:
  "mark_first sid ss = Some ss'
     \<Longrightarrow> length (filter (\<lambda>s. \<not> isUsed s) ss') \<le> length (filter (\<lambda>s. \<not> isUsed s) ss)"
  by (induction ss arbitrary: ss') (auto split: if_splits)

lemma markShareAsUsed_available:
  "markShareAsUsed sid p = Inr p'
     \<Longrightarrow> length (getAvailableShares p') \<le> length (getAvailableShares p)
         \<and> examPaper.threshold p' = examPaper.threshold p"
  by (auto simp: markShareAsUsed_def getAvailableShares_def
      split: option.splits dest: mark_first_available)

lemma hasEnoughShares_after_use:
  "markShareAsUsed sid p = Inr p' \<Longrightarrow> hasEnoughShares p' \<Longrightarrow> hasEnoughShares p"
  using markShareAsUsed_available [of sid p p']
  by (simp add: hasEnoughShares_def)

subsection \<open>The constructor of the service\<close>

lemma or_default_simps:
  "or_default None d = d" "or_default (Some 0) d = d" "n \<noteq> 0 \<Longrightarrow> or_default (Some n) d = n"
  by (simp_all add: or_default_def)

lemma new_EncryptionService_policy:
  "k \<noteq> [] \<Longrightarrow>
     new_EncryptionService (Some k) thr tot
       = Inr \<lparr>encryptionKey = k, service_threshold = or_default thr 3,
              service_totalParts = or_default tot 5\<rparr>"
  by (simp add: new_EncryptionService_def)

subsection \<open>The small instances meet the contracts\<close>

lemma xor_twice: "map ((\<lambda>b. b XOR k) \<circ> (\<lambda>b. b XOR k)) xs = (xs :: buffer)"
  by (induction xs) (simp_all add: xor.assoc)

lemma cipher_roundtrip_xor_cipher: "cipher_roundtrip xor_cipher"
  unfolding cipher_roundtrip_def by (simp add: xor_cipher_def xor_twice)





lemma rejects_invalid_policy_xor_sharing: "rejects_invalid_policy xor_sharing"
  unfolding rejects_invalid_policy_def by (auto simp: xor_sharing_def)

lemma example_key_length:
  "length (Buffer_from_hex ''000102030405060708090a0b0c0d0e0f101112131415161718191a1b1c1d1e1f'') = 32"
  by (simp add: hex_value_def)

section \<open>The claims\<close>

subsection \<open>Secret sharing\<close>



text \<open>
  C5. Given fewer shares than the threshold, \<open>reconstructSecret\<close> returns no secret: its
  block throws the error that asks for at least \<open>threshold\<close> shares, before the package is
  called, and the method's handler replaces it by \<open>Failed to reconstruct secret\<close>.
\<close>

theorem reconstructSecret_insufficient:
  assumes "int (length shares) < service_threshold this"
  shows "reconstructSecret_try L this shares = Inl (Need_at_least_shares (service_threshold this))
       \<and> reconstructSecret L this shares = Inl Failed_to_reconstruct_secret"
  using assms by (simp add: reconstructSecret_def reconstructSecret_try_def catch_as_simps)

theorem reconstructSecret_insufficient_witness:
  "reconstructSecret_try xor_sharing service_3_of_5 [share_2, share_4] = Inl (Need_at_least_shares 3)
   \<and> reconstructSecret xor_sharing service_3_of_5 [share_2, share_4] = Inl Failed_to_reconstruct_secret"
proof -
  have "int (length [share_2, share_4]) < service_threshold service_3_of_5"
    by (simp add: service_3_of_5_def)
  from reconstructSecret_insufficient [OF this, of xor_sharing]
  show ?thesis by (simp add: service_3_of_5_def)
qed

text \<open>
  C6. With a threshold below 2, a threshold above the number of shares or an empty secret,
  \<open>splitSecret\<close> produces no shares and fails. Neither the constructor nor \<open>splitSecret\<close>
  checks the policy: the method fails because the package refuses the call (the contract
  \<open>rejects_invalid_policy\<close>), and its handler turns the refusal into
  \<open>Failed to split secret\<close>.
\<close>

theorem splitSecret_invalid_policy:
  assumes "rejects_invalid_policy L"
      and "service_threshold this < 2
           \<or> service_threshold this > service_totalParts this
           \<or> secret = []"
  shows "splitSecret L this rnd secret = Inl Failed_to_split_secret"
proof -
  have "Buffer_from_utf8 secret = []" if "secret = []"
    using that by (simp add: Buffer_from_utf8_def)
  with assms obtain e where
    "shamir_share L rnd (Buffer_from_utf8 secret) (service_totalParts this)
       (service_threshold this) = Inl e"
    unfolding rejects_invalid_policy_def by blast
  then show ?thesis
    by (simp add: splitSecret_def splitSecret_try_def bind_err_simps catch_as_simps)
qed

theorem splitSecret_invalid_policy_witness:
  "splitSecret xor_sharing service_1_of_5 example_rnd ''PAPER_KEY_001'' = Inl Failed_to_split_secret
   \<and> splitSecret xor_sharing service_3_of_5 example_rnd [] = Inl Failed_to_split_secret"
proof -
  have a: "service_threshold service_1_of_5 < 2
           \<or> service_threshold service_1_of_5 > service_totalParts service_1_of_5
           \<or> ''PAPER_KEY_001'' = []"
    by (simp add: service_1_of_5_def)
  have b: "service_threshold service_3_of_5 < 2
           \<or> service_threshold service_3_of_5 > service_totalParts service_3_of_5
           \<or> ([] :: string) = []"
    by simp
  from splitSecret_invalid_policy [OF rejects_invalid_policy_xor_sharing a]
       splitSecret_invalid_policy [OF rejects_invalid_policy_xor_sharing b]
  show ?thesis by simp
qed

subsection \<open>The cipher\<close>

text \<open>
  C2. For every plaintext and every key of 32 bytes, \<open>encrypt\<close> returns a payload and
  \<open>decrypt\<close> of that payload under the same key returns the plaintext. The cipher is
  outside the repository; the theorem holds for every implementation that meets the
  contract \<open>cipher_roundtrip\<close>.
\<close>

theorem decrypt_encrypt:
  assumes C: "cipher_roundtrip C"
      and key: "length (Buffer_from_hex (encryptionKey this)) = 32"
  shows "\<exists>payload. encrypt C this randomBytes16 data = Inr payload
                 \<and> decrypt C this payload = Inr data"
proof -
  from C [unfolded cipher_roundtrip_def, rule_format, OF key, of "Buffer_from_utf8 data"]
  obtain c0 c1 out1 c2 out2 tag d0 d1 d2 p1 d3 p2 where
    e: "createCipher C ''aes-256-gcm'' (Buffer_from_hex (encryptionKey this)) = Inr c0"
       "cipher_update C c0 (Buffer_from_utf8 data) = Inr (c1, out1)"
       "cipher_final C c1 = Inr (c2, out2)"
       "getAuthTag C c2 = Inr tag"
    and d: "createDecipher C ''aes-256-gcm'' (Buffer_from_hex (encryptionKey this)) = Inr d0"
       "setAuthTag C d0 tag = Inr d1"
       "decipher_update C d1 (out1 @ out2) = Inr (d2, p1)"
       "decipher_final C d2 = Inr (d3, p2)"
    and p: "p1 @ p2 = Buffer_from_utf8 data"
    by (elim exE conjE) blast
  let ?payload = "\<lparr>encrypted = toString_hex out1 @ toString_hex out2,
                    iv = toString_hex randomBytes16, authTag = toString_hex tag\<rparr>"
  have enc: "encrypt C this randomBytes16 data = Inr ?payload"
    by (simp add: encrypt_def encrypt_try_def e bind_err_simps catch_as_simps)
  have ct: "Buffer_from_hex (toString_hex out1 @ toString_hex out2) = out1 @ out2"
    using Buffer_from_hex_toString_hex [of "out1 @ out2"] by (simp add: toString_hex_append)
  have pt: "toString_utf8 p1 @ toString_utf8 p2 = data"
    using p toString_utf8_Buffer_from_utf8 [of data] by (simp flip: toString_utf8_append)
  have dec: "decrypt C this ?payload = Inr data"
    by (simp add: decrypt_def decrypt_try_def d ct pt Buffer_from_hex_toString_hex
        bind_err_simps catch_as_simps)
  from enc dec show ?thesis by blast
qed

theorem decrypt_encrypt_witness:
  "\<exists>payload. encrypt xor_cipher service_3_of_5 (replicate 16 0) ''paper content'' = Inr payload
            \<and> decrypt xor_cipher service_3_of_5 payload = Inr ''paper content''"
proof -
  have "length (Buffer_from_hex (encryptionKey service_3_of_5)) = 32"
    using example_key_length by (simp add: service_3_of_5_def)
  from decrypt_encrypt [OF cipher_roundtrip_xor_cipher this]
  show ?thesis .
qed

text \<open>
  C3. The nonce that \<open>encrypt\<close> draws is returned in the payload and is not an argument
  of \<open>createCipher\<close>: for the same key and plaintext, two nonces give the same ciphertext
  and the same tag (or the same failure), and \<open>decrypt\<close> returns the same result whatever
  nonce the payload carries.
\<close>

theorem nonce_not_bound:
  "map_sum id (\<lambda>p. (encrypted p, authTag p)) (encrypt C this iv1 data)
     = map_sum id (\<lambda>p. (encrypted p, authTag p)) (encrypt C this iv2 data)
   \<and> decrypt C this (payload\<lparr>iv := other\<rparr>) = decrypt C this payload"
proof
  have "encrypt_try C this iv2 data
      = map_sum id (\<lambda>p. p\<lparr>iv := toString_hex iv2\<rparr>) (encrypt_try C this iv1 data)"
    by (simp add: encrypt_try_def bind_err_def split: sum.splits prod.splits)
  then show "map_sum id (\<lambda>p. (encrypted p, authTag p)) (encrypt C this iv1 data)
     = map_sum id (\<lambda>p. (encrypted p, authTag p)) (encrypt C this iv2 data)"
    unfolding encrypt_def
    by (cases "encrypt_try C this iv1 data") (simp_all add: catch_as_simps)
  show "decrypt C this (payload\<lparr>iv := other\<rparr>) = decrypt C this payload"
    by (simp add: decrypt_def decrypt_try_def)
qed

text \<open>
  C4. \<open>decrypt\<close> reads the key through \<open>Buffer.from(key, 'hex')\<close>. The key of the README
  and of \<open>env.example\<close>, \<open>your-32-byte-encryption-key\<close>, has no hexadecimal digit pair at
  its start and decodes to the empty buffer, as every such key does: a service
  configured with another such key decrypts every payload exactly as the service that
  encrypted it.
\<close>

theorem decrypt_under_another_key:
  "Buffer_from_hex ''your-32-byte-encryption-key'' = []
   \<and> Buffer_from_hex ''wrong-key'' = []
   \<and> decrypt C (this\<lparr>encryptionKey := ''wrong-key''\<rparr>) payload
       = decrypt C (this\<lparr>encryptionKey := ''your-32-byte-encryption-key''\<rparr>) payload"
  by (simp add: decrypt_def decrypt_try_def hex_value_def)

subsection \<open>Anchors\<close>

text \<open>
  C7, as the code has it. \<open>verifyDataIntegrity\<close> returns true exactly when the collection
  can be read, it holds a confirmed record of the entity, and the first such record in
  the order \<open>findOne\<close> scans the collection carries the local hash. In every other case
  (no confirmed record, another hash, a query that fails) the result is false; no error
  is raised.
\<close>

theorem verifyDataIntegrity_first_confirmed:
  "verifyDataIntegrity d eid ety localHash \<longleftrightarrow>
     (\<exists>docs i. d = Connected docs \<and> i < length docs
        \<and> entityId (docs ! i) = eid \<and> entityType (docs ! i) = ety
        \<and> status (docs ! i) = confirmed
        \<and> (\<forall>j < i. \<not> (entityId (docs ! j) = eid \<and> entityType (docs ! j) = ety
                        \<and> status (docs ! j) = confirmed))
        \<and> dataHash (docs ! i) = localHash)"
proof (cases d)
  case (Connected docs)
  let ?P = "\<lambda>t. entityId t = eid \<and> entityType t = ety \<and> status t = confirmed"
  show ?thesis
  proof (cases "find ?P docs")
    case None
    then have "\<forall>i < length docs. \<not> ?P (docs ! i)" by (simp add: find_None_index)
    moreover have "\<not> verifyDataIntegrity d eid ety localHash"
      using None Connected by (simp add: verifyDataIntegrity_def findOne_def)
    ultimately show ?thesis using Connected by auto
  next
    case (Some t)
    then obtain i where i: "i < length docs" "?P (docs ! i)" "\<forall>j < i. \<not> ?P (docs ! j)"
        "t = docs ! i"
      unfolding find_first_index by blast
    have v: "verifyDataIntegrity d eid ety localHash \<longleftrightarrow> dataHash t = localHash"
      using Some Connected by (simp add: verifyDataIntegrity_def findOne_def)
    show ?thesis
    proof
      assume "verifyDataIntegrity d eid ety localHash"
      with v i Connected show "\<exists>docs i. d = Connected docs \<and> i < length docs
        \<and> entityId (docs ! i) = eid \<and> entityType (docs ! i) = ety
        \<and> status (docs ! i) = confirmed
        \<and> (\<forall>j < i. \<not> (entityId (docs ! j) = eid \<and> entityType (docs ! j) = ety
                        \<and> status (docs ! j) = confirmed))
        \<and> dataHash (docs ! i) = localHash" by blast
    next
      assume "\<exists>docs i. d = Connected docs \<and> i < length docs
        \<and> entityId (docs ! i) = eid \<and> entityType (docs ! i) = ety
        \<and> status (docs ! i) = confirmed
        \<and> (\<forall>j < i. \<not> (entityId (docs ! j) = eid \<and> entityType (docs ! j) = ety
                        \<and> status (docs ! j) = confirmed))
        \<and> dataHash (docs ! i) = localHash"
      then obtain k where k: "k < length docs" "?P (docs ! k)" "\<forall>j < k. \<not> ?P (docs ! j)"
          "dataHash (docs ! k) = localHash"
        using Connected by auto
      have "k = i"
      proof (rule ccontr)
        assume "k \<noteq> i"
        then consider "k < i" | "i < k" by linarith
        then show False using i k by cases auto
      qed
      with k i v show "verifyDataIntegrity d eid ety localHash" by simp
    qed
  qed
next
  case Unreachable
  then show ?thesis by (simp add: verifyDataIntegrity_def findOne_def)
qed

theorem verifyDataIntegrity_first_confirmed_witness:
  "verifyDataIntegrity (Connected [paper_anchor, rank_anchor]) ''P1'' ExamPaper ''hashA''"
proof -
  have "\<exists>docs i. Connected [paper_anchor, rank_anchor] = Connected docs \<and> i < length docs
        \<and> entityId (docs ! i) = ''P1'' \<and> entityType (docs ! i) = ExamPaper
        \<and> status (docs ! i) = confirmed
        \<and> (\<forall>j < i. \<not> (entityId (docs ! j) = ''P1'' \<and> entityType (docs ! j) = ExamPaper
                        \<and> status (docs ! j) = confirmed))
        \<and> dataHash (docs ! i) = ''hashA''"
    by (rule exI [of _ "[paper_anchor, rank_anchor]"], rule exI [of _ 0])
       (simp add: paper_anchor_def)
  then show ?thesis
    using verifyDataIntegrity_first_confirmed
      [of "Connected [paper_anchor, rank_anchor]" "''P1''" ExamPaper "''hashA''"]
    by simp
qed

text \<open>
  C7, as the claim states it, at the collection that \<open>storePaperHash\<close> followed by
  \<open>storeRankHash\<close> leaves for one paper: the latest confirmed record of the entity carries
  \<open>hashB\<close>, and the verification of \<open>hashB\<close> returns false.
\<close>

theorem verifyDataIntegrity_latest_counterexample:
  "latest_confirmed [paper_anchor, rank_anchor] ''P1'' ExamPaper = Some rank_anchor
   \<and> dataHash rank_anchor = ''hashB''
   \<and> verifyDataIntegrity (Connected [paper_anchor, rank_anchor]) ''P1'' ExamPaper ''hashB'' = False"
  by (simp add: latest_confirmed_def verifyDataIntegrity_def findOne_def
      paper_anchor_def rank_anchor_def)

text \<open>
  C8. A pending record with fewer retries than \<open>maxRetries\<close> meets consecutive failures,
  one \<open>incrementRetry\<close> each, until the counter reaches \<open>maxRetries\<close>. Before the last
  failure the record is pending with its counter raised by one per failure and below
  \<open>maxRetries\<close>; the last failure sets the status to failed and \<open>failedAt\<close> to its time.
  The failed record is not among the records \<open>findPending\<close> returns, and further retry
  steps leave it failed. A single \<open>incrementRetry\<close> on any pending record either leaves
  it pending with the counter raised by one and below \<open>maxRetries\<close>, or leaves it failed
  with \<open>failedAt\<close> set.
\<close>

theorem retry_exhaustion:
  assumes pend: "status t = pending"
      and below: "retryCount t < maxRetries t"
      and len: "int (length nows) = maxRetries t - retryCount t"
      and pend': "status u = pending"
  shows "(\<forall>k < length nows.
            status (retry_steps (take k nows) t) = pending
          \<and> retryCount (retry_steps (take k nows) t) = retryCount t + int k
          \<and> retryCount (retry_steps (take k nows) t) < maxRetries t)
       \<and> status (retry_steps nows t) = failed
       \<and> failedAt (retry_steps nows t) = Some (last nows)
       \<and> retryCount (retry_steps nows t) = maxRetries t
       \<and> retry_steps nows t \<notin> set (findPending docs)
       \<and> (\<forall>later. status (retry_steps later (retry_steps nows t)) = failed)
       \<and> (status (incrementRetry now u) = pending
            \<and> retryCount (incrementRetry now u) = retryCount u + 1
            \<and> retryCount (incrementRetry now u) < maxRetries (incrementRetry now u)
          \<or> status (incrementRetry now u) = failed
            \<and> failedAt (incrementRetry now u) = Some now)"
proof -
  have before: "status (retry_steps (take k nows) t) = pending
          \<and> retryCount (retry_steps (take k nows) t) = retryCount t + int k
          \<and> retryCount (retry_steps (take k nows) t) < maxRetries t" if "k < length nows" for k
  proof -
    have l: "length (take k nows) = k" using that by simp
    have "retryCount t + int (length (take k nows)) < maxRetries t"
      using that len l by linarith
    then show ?thesis
      using retry_steps_pending [OF pend, of "take k nows"] l
      by (simp add: retry_steps_fields)
  qed
  from below len have ne: "nows \<noteq> []" by auto
  then have split: "nows = butlast nows @ [last nows]" by simp
  define v where "v = retry_steps (butlast nows) t"
  have steps: "retry_steps nows t = incrementRetry (last nows) v"
    unfolding v_def using retry_steps_append [of "butlast nows" "[last nows]" t] split by simp
  have "retryCount v = retryCount t + int (length (butlast nows))"
    by (simp add: v_def retry_steps_fields)
  moreover have "int (length (butlast nows)) = int (length nows) - 1"
    using ne by (simp add: of_nat_diff Suc_leI)
  ultimately have reach: "maxRetries v \<le> retryCount v + 1"
    using len by (simp add: v_def retry_steps_fields)
  have st: "status (retry_steps nows t) = failed"
    using steps incrementRetry_reached(1) [OF reach] by simp
  have fa: "failedAt (retry_steps nows t) = Some (last nows)"
    using steps incrementRetry_reached(2) [OF reach] by simp
  have rc: "retryCount (retry_steps nows t) = maxRetries t"
    using len by (simp add: retry_steps_fields)
  have np: "retry_steps nows t \<notin> set (findPending docs)"
    using st findPending_status [of "retry_steps nows t" docs] by auto
  have later: "status (retry_steps later (retry_steps nows t)) = failed" for later
    using st by (rule retry_steps_failed)
  have step: "status (incrementRetry now u) = pending
            \<and> retryCount (incrementRetry now u) = retryCount u + 1
            \<and> retryCount (incrementRetry now u) < maxRetries (incrementRetry now u)
          \<or> status (incrementRetry now u) = failed
            \<and> failedAt (incrementRetry now u) = Some now"
  proof (cases "retryCount u + 1 < maxRetries u")
    case True
    then show ?thesis
      using pend' by (simp add: incrementRetry_below incrementRetry_fields)
  next
    case False
    then have "maxRetries u \<le> retryCount u + 1" by simp
    then show ?thesis
      by (simp add: incrementRetry_reached)
  qed
  from before st fa rc np later step show ?thesis by blast
qed

theorem retry_exhaustion_witness:
  "status (retry_steps [10, 20] tx0) = pending
   \<and> retryCount (retry_steps [10, 20] tx0) = 2
   \<and> status (retry_steps [10, 20, 30] tx0) = failed
   \<and> failedAt (retry_steps [10, 20, 30] tx0) = Some 30
   \<and> retryCount (retry_steps [10, 20, 30] tx0) = 3"
proof -
  have a: "status tx0 = pending" by (simp add: tx0_def)
  have b: "retryCount tx0 < maxRetries tx0" by (simp add: tx0_def)
  have c: "int (length [10, 20, 30 :: nat]) = maxRetries tx0 - retryCount tx0"
    by (simp add: tx0_def)
  note r = retry_exhaustion [OF a b c a, of "[]" 0]
  from r have "\<forall>k < length [10, 20, 30 :: nat].
            status (retry_steps (take k [10, 20, 30]) tx0) = pending
          \<and> retryCount (retry_steps (take k [10, 20, 30]) tx0) = retryCount tx0 + int k"
    by blast
  then have "2 < length [10, 20, 30 :: nat] \<longrightarrow>
            status (retry_steps (take 2 [10, 20, 30]) tx0) = pending
          \<and> retryCount (retry_steps (take 2 [10, 20, 30]) tx0) = retryCount tx0 + int 2"
    by (rule spec)
  then have two: "status (retry_steps [10, 20] tx0) = pending
          \<and> retryCount (retry_steps [10, 20] tx0) = 2"
    by (simp add: tx0_def)
  from r have "status (retry_steps [10, 20, 30] tx0) = failed
       \<and> failedAt (retry_steps [10, 20, 30] tx0) = Some (last [10, 20, 30])
       \<and> retryCount (retry_steps [10, 20, 30] tx0) = maxRetries tx0"
    by blast
  then have three: "status (retry_steps [10, 20, 30] tx0) = failed
       \<and> failedAt (retry_steps [10, 20, 30] tx0) = Some 30
       \<and> retryCount (retry_steps [10, 20, 30] tx0) = 3"
    by (simp add: tx0_def)
  from two three show ?thesis by blast
qed

subsection \<open>Questions\<close>

text \<open>
  C9. \<open>getForExam\<close> returns a new object. It holds the question's data as \<open>toObject()\<close>
  gives it, without the properties \<open>correctAnswer\<close>, \<open>explanation\<close>, \<open>blockchainHash\<close>,
  \<open>blockchainTxId\<close>, \<open>verifiedBy\<close> and \<open>verifiedAt\<close> and with every other property as it
  was. The question and every other object that existed before the call are unchanged.
\<close>

theorem getForExam_frame:
  assumes "this < length h"
  shows "case getForExam conv h this of (h', questionData) \<Rightarrow>
           questionData = length h
         \<and> length h' = length h + 1
         \<and> (\<forall>k. (h' ! questionData) k =
                  (if k \<in> {''correctAnswer'', ''explanation'', ''blockchainHash'',
                            ''blockchainTxId'', ''verifiedBy'', ''verifiedAt''}
                   then None else conv (h ! this) k))
         \<and> (\<forall>a < length h. h' ! a = h ! a)
         \<and> h' ! this = h ! this"
  using assms by (simp add: getForExam_eq nth_append)

theorem getForExam_frame_witness:
  "case getForExam example_conv [example_question] 0 of (h', questionData) \<Rightarrow>
       questionData = 1
     \<and> (h' ! questionData) ''correctAnswer'' = None
     \<and> (h' ! questionData) ''explanation'' = None
     \<and> (h' ! questionData) ''questionText'' = Some ''2 + 2 = ?''
     \<and> (h' ! questionData) ''fullQuestionId'' = Some ''MH_Q1''
     \<and> h' ! 0 = example_question"
proof -
  have "0 < length [example_question]" by simp
  from getForExam_frame [OF this, of example_conv]
  show ?thesis
    by (simp add: example_conv_def example_question_def split: prod.splits)
qed

subsection \<open>Exam papers\<close>

text \<open>
  C10. \<open>hasEnoughShares\<close> is true exactly when at least \<open>threshold\<close> of the paper's shares
  have \<open>isUsed\<close> false: it counts the shares not yet used, that is all shares less the
  used ones.
\<close>

theorem hasEnoughShares_counts_unused:
  "(hasEnoughShares p \<longleftrightarrow>
      examPaper.threshold p
        \<le> int (card {i. i < length (shamirShares p) \<and> \<not> isUsed (shamirShares p ! i)}))
   \<and> (hasEnoughShares p \<longleftrightarrow>
      examPaper.threshold p
        \<le> int (length (shamirShares p)) - int (length (filter isUsed (shamirShares p))))"
proof
  show "hasEnoughShares p \<longleftrightarrow>
      examPaper.threshold p
        \<le> int (card {i. i < length (shamirShares p) \<and> \<not> isUsed (shamirShares p ! i)})"
    by (simp add: hasEnoughShares_def getAvailableShares_def length_filter_conv_card)
  have "length (filter (\<lambda>s. \<not> isUsed s) (shamirShares p))
          + length (filter isUsed (shamirShares p)) = length (shamirShares p)"
    using sum_length_filter_compl [of isUsed "shamirShares p"] by simp
  then have "int (length (filter (\<lambda>s. \<not> isUsed s) (shamirShares p)))
      = int (length (shamirShares p)) - int (length (filter isUsed (shamirShares p)))"
    by linarith
  then show "hasEnoughShares p \<longleftrightarrow>
      examPaper.threshold p
        \<le> int (length (shamirShares p)) - int (length (filter isUsed (shamirShares p)))"
    by (simp add: hasEnoughShares_def getAvailableShares_def)
qed

end
